theory Spec2Isabelle
  imports Complex_Main
begin

section \<open>Piecewise functions and their integration (ptwXY_integration.c)\<close>

text \<open>
  A shallow embedding of the integration module of the ptwXY library. A C \<open>double\<close> is
  modelled as a \<open>real\<close>: \<open>log\<close>, \<open>exp\<close>, \<open>pow\<close>, \<open>sqrt\<close> and \<open>fabs\<close> are the real
  functions \<open>ln\<close>, \<open>exp\<close>, \<open>powr\<close>, \<open>sqrt\<close> and \<open>abs\<close>, and no rounding, infinity or NaN is
  modelled. Every routine returns its status code together with the contents of its
  output parameter and the function object it was handed (which it receives by pointer).
  The message report \<open>smr\<close> is not modelled: only the status codes are.
\<close>

subsection \<open>Data model\<close>

text \<open>The status codes that the integration module returns or reports.\<close>

datatype nfu_status =
    nfu_Okay
  | nfu_badSelf
  | nfu_otherInterpolation
  | nfu_badIntegrationInput
  | nfu_unsupportedInterpolation
  | nfu_badNorm
  | nfu_divByZero
  | nfu_Error

datatype ptwXY_interpolation =
    ptwXY_interpolationLinLin
  | ptwXY_interpolationLogLin
  | ptwXY_interpolationLinLog
  | ptwXY_interpolationLogLog
  | ptwXY_interpolationFlat
  | ptwXY_interpolationOther

text \<open>A point is the pair \<open>(x, y)\<close>; \<open>ptwXYPoints\<close> holds the fields of the C struct that
  the integration module reads: the status, the interpolation law and the points (the
  field \<open>length\<close> is the length of the list).\<close>

type_synonym ptwXYPoint = "real \<times> real"

record ptwXYPoints =
  status :: nfu_status
  interpolation :: ptwXY_interpolation
  points :: "ptwXYPoint list"

subsection \<open>Collaborators of the module\<close>

text \<open>
  Modelled from the spec: \<open>ptwXY_simpleCoalescePoints\<close> is not part of the integration
  module. The data model keeps the points of a function as one sequence ordered by \<open>x\<close>,
  which coalescing restores in the storage of the C struct; on that sequence it changes
  nothing. A function that carries a prior error status is refused (\<open>BadSelf\<close>).
\<close>

definition ptwXY_simpleCoalescePoints :: "ptwXYPoints \<Rightarrow> nfu_status \<times> ptwXYPoints" where
  "ptwXY_simpleCoalescePoints ptwXY =
     (if status ptwXY = nfu_Okay then (nfu_Okay, ptwXY) else (nfu_badSelf, ptwXY))"

text \<open>
  Modelled from the spec: \<open>ptwXY_interpolatePoint\<close>, the point evaluator, is not part of
  the integration module. Given a law and the two end points of a segment it returns the
  interpolated \<open>y\<close> at \<open>x\<close>, and it fails under the positivity constraints of the law
  (\<open>BadIntegrationInput\<close>: a non-positive value where a logarithm is taken) and for the
  law \<open>other\<close>. The spec describes the evaluator for \<open>x\<close> between \<open>x1\<close> and \<open>x2\<close> only. What
  the model returns for an \<open>x\<close> outside the segment (the formula of the law) is a choice of
  the model that neither the spec nor the sources settle: no property below rests on
  that value, and \<open>ptwXY_integrate\<close> reaches such a call only when the whole range lies
  below the first point of the function.
\<close>

fun ptwXY_interpolatePoint ::
  "ptwXY_interpolation \<Rightarrow> real \<Rightarrow> real \<Rightarrow> real \<Rightarrow> real \<Rightarrow> real \<Rightarrow> nfu_status \<times> real" where
  "ptwXY_interpolatePoint ptwXY_interpolationLinLin x x1 y1 x2 y2 =
     (nfu_Okay, (y1 * (x2 - x) + y2 * (x - x1)) / (x2 - x1))"
| "ptwXY_interpolatePoint ptwXY_interpolationLogLin x x1 y1 x2 y2 =
     (if y1 \<le> 0 \<or> y2 \<le> 0 then (nfu_badIntegrationInput, 0)
      else (nfu_Okay, y1 * exp (ln (y2 / y1) * (x - x1) / (x2 - x1))))"
| "ptwXY_interpolatePoint ptwXY_interpolationLinLog x x1 y1 x2 y2 =
     (if x1 \<le> 0 \<or> x2 \<le> 0 then (nfu_badIntegrationInput, 0)
      else (nfu_Okay, y1 + (y2 - y1) * ln (x / x1) / ln (x2 / x1)))"
| "ptwXY_interpolatePoint ptwXY_interpolationLogLog x x1 y1 x2 y2 =
     (if x1 \<le> 0 \<or> x2 \<le> 0 \<or> y1 \<le> 0 \<or> y2 \<le> 0 then (nfu_badIntegrationInput, 0)
      else (nfu_Okay, y1 * exp (ln (y2 / y1) * ln (x / x1) / ln (x2 / x1))))"
| "ptwXY_interpolatePoint ptwXY_interpolationFlat x x1 y1 x2 y2 = (nfu_Okay, y1)"
| "ptwXY_interpolatePoint ptwXY_interpolationOther x x1 y1 x2 y2 = (nfu_otherInterpolation, 0)"

text \<open>
  Modelled from the spec: \<open>ptwXY_domainMin\<close> and \<open>ptwXY_domainMax\<close> are not part of the
  integration module. The domain of a function is \<open>[x_first, x_last]\<close>; the module calls
  them on functions with at least one point only.
\<close>

definition ptwXY_domainMin :: "ptwXYPoints \<Rightarrow> real" where
  "ptwXY_domainMin ptwXY = fst (hd (points ptwXY))"

definition ptwXY_domainMax :: "ptwXYPoints \<Rightarrow> real" where
  "ptwXY_domainMax ptwXY = fst (last (points ptwXY))"

subsection \<open>The integral of one segment: \<open>ptwXY_f_integrate\<close>\<close>

text \<open>The cast \<open>(int) a\<close> of a double truncates towards zero. For a value outside the range
  of a 32-bit \<open>int\<close> the C standard leaves the cast undefined; the model takes \<open>INT_MIN\<close>,
  which the conversion instruction of x86 returns and with which the code goes on with
  \<open>n = 6\<close>.\<close>

definition int_of_double :: "real \<Rightarrow> int" where
  "int_of_double a =
     (if - 2147483649 < a \<and> a < 2147483648
      then (if a < 0 then - \<lfloor>- a\<rfloor> else \<lfloor>a\<rfloor>)
      else - 2147483648)"

text \<open>The loop \<open>for( i = 0, s = 0.; i < n; i++, a++, f-- ) s = ( 1. + s ) * a * z / f\<close>,
  by recursion on the number of passes that are left.\<close>

fun logLog_series :: "nat \<Rightarrow> real \<Rightarrow> real \<Rightarrow> real \<Rightarrow> real \<Rightarrow> real" where
  "logLog_series 0 s a z f = s"
| "logLog_series (Suc k) s a z f = logLog_series k ((1 + s) * a * z / f) (a + 1) z (f - 1)"

definition logLog_value :: "real \<Rightarrow> real \<Rightarrow> real \<Rightarrow> real \<Rightarrow> real" where
  "logLog_value x1 y1 x2 y2 =
     (let ry = y2 / y1;
          ly = (if \<bar>ry - 1\<bar> < 0.0001
                then (let l = (y2 - y1) / y1 in l * (1 + l * (- 0.5 + l * (1 / 3 - 0.25 * l))))
                else ln ry);
          r = x2 / x1;
          lx = (if \<bar>r - 1\<bar> < 0.0001
                then (let l = (x2 - x1) / x1 in l * (1 + l * (- 0.5 + l * (1 / 3 - 0.25 * l))))
                else ln r);
          a = ly / lx
      in if \<bar>r - 1\<bar> < 0.001
         then (let z = (x2 - x1) / x1;
                   n0 = int_of_double a;
                   n1 = (if n0 > 10 then 12 else n0);
                   n = (if n1 < 4 then 6 else n1);
                   a' = a - real_of_int n + 1;
                   f = real_of_int n + 1;
                   s = logLog_series (nat n) 0 a' z f
               in y1 * (x2 - x1) * (1 + s))
         else y1 * x1 * (r powr (a + 1) - 1) / (a + 1))"

text \<open>The result is the status and the contents of \<open>*value\<close>, which is set to \<open>0\<close> first
  and stays \<open>0\<close> on every failure.\<close>

fun ptwXY_f_integrate ::
  "ptwXY_interpolation \<Rightarrow> real \<Rightarrow> real \<Rightarrow> real \<Rightarrow> real \<Rightarrow> nfu_status \<times> real" where
  "ptwXY_f_integrate ptwXY_interpolationLinLin x1 y1 x2 y2 =
     (nfu_Okay, 0.5 * (y1 + y2) * (x2 - x1))"
| "ptwXY_f_integrate ptwXY_interpolationLogLin x1 y1 x2 y2 =
     (if y1 \<le> 0 \<or> y2 \<le> 0 then (nfu_badIntegrationInput, 0)
      else (let r = y2 / y1
            in if \<bar>r - 1\<bar> < 0.0001
               then (let r = r - 1
                     in (nfu_Okay, y1 * (x2 - x1) /
                           (1 + r * (- 0.5 + r * (1 / 3 + r * (- 0.25 + 0.2 * r))))))
               else (nfu_Okay, (y2 - y1) * (x2 - x1) / ln r)))"
| "ptwXY_f_integrate ptwXY_interpolationLinLog x1 y1 x2 y2 =
     (if x1 \<le> 0 \<or> x2 \<le> 0 then (nfu_badIntegrationInput, 0)
      else (let r = x2 / x1
            in if \<bar>r - 1\<bar> < 0.0001
               then (let r = r - 1;
                         r = r * (- 0.5 + r * (1 / 3 + r * (- 0.25 + 0.2 * r)))
                     in (nfu_Okay, x1 * (y2 - y1) * r / (1 + r) + y2 * (x2 - x1)))
               else (nfu_Okay, (y1 - y2) * (x2 - x1) / ln r + x2 * y2 - x1 * y1)))"
| "ptwXY_f_integrate ptwXY_interpolationLogLog x1 y1 x2 y2 =
     (if x1 \<le> 0 \<or> x2 \<le> 0 \<or> y1 \<le> 0 \<or> y2 \<le> 0 then (nfu_badIntegrationInput, 0)
      else (nfu_Okay, logLog_value x1 y1 x2 y2))"
| "ptwXY_f_integrate ptwXY_interpolationFlat x1 y1 x2 y2 = (nfu_Okay, y1 * (x2 - x1))"
| "ptwXY_f_integrate ptwXY_interpolationOther x1 y1 x2 y2 = (nfu_otherInterpolation, 0)"

subsection \<open>The integral over a range: \<open>ptwXY_integrate\<close>\<close>

text \<open>The scan \<open>for( i = 0; i < n; i++ ) if( point->x >= domainMin ) break\<close>: the index
  of the first point at or above \<open>domainMin\<close>, or \<open>n\<close>.\<close>

fun integrate_scan :: "real \<Rightarrow> ptwXYPoint list \<Rightarrow> nat" where
  "integrate_scan domainMin [] = 0"
| "integrate_scan domainMin (point # rest) =
     (if fst point \<ge> domainMin then 0 else Suc (integrate_scan domainMin rest))"

text \<open>The second loop of \<open>ptwXY_integrate\<close>, over the points that are left. It carries the
  last point \<open>(x2, y2)\<close>, which becomes \<open>(x1, y1)\<close>, and \<open>*value\<close> (\<open>val\<close>); a status
  other than \<open>nfu_Okay\<close> is an early \<open>return\<close>.\<close>

fun integrate_loop ::
  "ptwXY_interpolation \<Rightarrow> real \<Rightarrow> real \<Rightarrow> real \<Rightarrow> real \<Rightarrow> ptwXYPoint list \<Rightarrow> nfu_status \<times> real" where
  "integrate_loop interp domainMax x1 y1 val [] = (nfu_Okay, val)"
| "integrate_loop interp domainMax x1 y1 val (point # rest) =
     (if fst point > domainMax then
        (case ptwXY_interpolatePoint interp domainMax x1 y1 (fst point) (snd point) of
           (st, y) \<Rightarrow>
             if st \<noteq> nfu_Okay then (st, val)
             else (case ptwXY_f_integrate interp x1 y1 domainMax y of
                     (st2, dSum) \<Rightarrow>
                       if st2 \<noteq> nfu_Okay then (st2, val) else (nfu_Okay, val + dSum)))
      else
        (case ptwXY_f_integrate interp x1 y1 (fst point) (snd point) of
           (st, dSum) \<Rightarrow>
             if st \<noteq> nfu_Okay then (st, val)
             else integrate_loop interp domainMax (fst point) (snd point) (val + dSum) rest))"

text \<open>The second loop and the final \<open>*value *= _sign\<close>, which an early return skips.\<close>

definition integrate_rest ::
  "ptwXY_interpolation \<Rightarrow> real \<Rightarrow> real \<Rightarrow> real \<Rightarrow> real \<Rightarrow> real \<Rightarrow> ptwXYPoint list
     \<Rightarrow> nfu_status \<times> real" where
  "integrate_rest interp domainMax sign x2 y2 val rest =
     (case integrate_loop interp domainMax x2 y2 val rest of
        (st, v) \<Rightarrow> if st \<noteq> nfu_Okay then (st, v) else (nfu_Okay, v * sign))"

text \<open>The body of \<open>ptwXY_integrate\<close> after the points are coalesced: \<open>n\<close> is the length
  read on entry, \<open>pts\<close> the coalesced points, and the bounds are already in order.\<close>

definition integrate_walk ::
  "ptwXY_interpolation \<Rightarrow> nat \<Rightarrow> ptwXYPoint list \<Rightarrow> real \<Rightarrow> real \<Rightarrow> real \<Rightarrow> nfu_status \<times> real" where
  "integrate_walk interp n pts domainMin domainMax sign =
     (let i = integrate_scan domainMin (take n pts)
      in if i = n then (nfu_Okay, 0)
         else
           (let x2 = fst (pts ! i); y2 = snd (pts ! i)
            in if i > 0 \<and> x2 > domainMin then
                 (let x1 = fst (pts ! (i - 1)); y1 = snd (pts ! (i - 1))
                  in case ptwXY_interpolatePoint interp domainMin x1 y1 x2 y2 of
                       (st, y) \<Rightarrow>
                         if st \<noteq> nfu_Okay then (st, 0)
                         else if x2 > domainMax then
                           (case ptwXY_interpolatePoint interp domainMax x1 y1 x2 y2 of
                              (st2, rangeMax) \<Rightarrow>
                                if st2 = nfu_Okay
                                then ptwXY_f_integrate interp domainMin y domainMax rangeMax
                                else (st2, 0))
                         else
                           (case ptwXY_f_integrate interp domainMin y x2 y2 of
                              (st2, v) \<Rightarrow>
                                if st2 \<noteq> nfu_Okay then (st2, v)
                                else integrate_rest interp domainMax sign x2 y2 v
                                       (drop (i + 1) (take n pts))))
               else integrate_rest interp domainMax sign x2 y2 0 (drop (i + 1) (take n pts))))"

definition ptwXY_integrate ::
  "ptwXYPoints \<Rightarrow> real \<Rightarrow> real \<Rightarrow> nfu_status \<times> real \<times> ptwXYPoints" where
  "ptwXY_integrate ptwXY domainMin domainMax =
     (let n = length (points ptwXY)
      in if status ptwXY \<noteq> nfu_Okay then (nfu_badSelf, 0, ptwXY)
         else if interpolation ptwXY = ptwXY_interpolationOther
         then (nfu_otherInterpolation, 0, ptwXY)
         else if n < 2 then (nfu_Okay, 0, ptwXY)
         else
           (let swapped = (domainMax < domainMin);
                dMin = (if swapped then domainMax else domainMin);
                dMax = (if swapped then domainMin else domainMax);
                sign = (if swapped then - 1 else 1)
            in case ptwXY_simpleCoalescePoints ptwXY of
                 (st, p) \<Rightarrow>
                   if st \<noteq> nfu_Okay then (st, 0, p)
                   else (case integrate_walk (interpolation p) n (points p) dMin dMax sign of
                           (st2, v) \<Rightarrow> (st2, v, p))))"

subsection \<open>\<open>ptwXY_integrateDomain\<close> and \<open>ptwXY_normalize\<close>\<close>

definition ptwXY_integrateDomain :: "ptwXYPoints \<Rightarrow> nfu_status \<times> real \<times> ptwXYPoints" where
  "ptwXY_integrateDomain ptwXY =
     (if status ptwXY \<noteq> nfu_Okay then (nfu_badSelf, 0, ptwXY)
      else if length (points ptwXY) > 0
      then ptwXY_integrate ptwXY (ptwXY_domainMin ptwXY) (ptwXY_domainMax ptwXY)
      else (nfu_Okay, 0, ptwXY))"

text \<open>The first test of \<open>ptwXY_normalize\<close> reads its own local \<open>status\<close>, which is
  \<open>nfu_Okay\<close>, and never fires. The loop \<open>points[i1].y /= sum\<close> runs over every point
  (\<open>integral\<close> is the local \<open>sum\<close>).\<close>

definition ptwXY_normalize :: "ptwXYPoints \<Rightarrow> nfu_status \<times> ptwXYPoints" where
  "ptwXY_normalize ptwXY =
     (case ptwXY_integrateDomain ptwXY of
        (st, integral, p) \<Rightarrow>
          if st \<noteq> nfu_Okay then (st, p)
          else if integral = 0 then (nfu_badNorm, p)
          else (nfu_Okay, p\<lparr>points := map (\<lambda>point. (fst point, snd point / integral)) (points p)\<rparr>))"

text \<open>The function of the unit test \<open>integrationXY.c\<close>: law \<open>linLin\<close>, points
  \<open>(2,2), (4,4), (6,2), (8,6)\<close>.\<close>

definition XY :: ptwXYPoints where
  "XY = \<lparr>status = nfu_Okay, interpolation = ptwXY_interpolationLinLin,
         points = [(2, 2), (4, 4), (6, 2), (8, 6)]\<rparr>"

subsection \<open>Weighted integrals: \<open>ptwXY_integrateWithWeight_x\<close> and \<open>_sqrt_x\<close>\<close>

text \<open>The \<open>switch\<close> inside the loop of \<open>ptwXY_integrateWithWeight_x\<close>: what one segment
  adds to \<open>sum\<close>.\<close>

fun weight_x_term :: "ptwXY_interpolation \<Rightarrow> real \<Rightarrow> real \<Rightarrow> real \<Rightarrow> real \<Rightarrow> real" where
  "weight_x_term ptwXY_interpolationFlat x1 y1 x2 y2 = 0.5 * (x2 - x1) * y1 * (x1 + x2)"
| "weight_x_term ptwXY_interpolationLinLin x1 y1 x2 y2 =
     (x2 - x1) * (y1 * (2 * x1 + x2) + y2 * (x1 + 2 * x2)) / 6"
| "weight_x_term ptwXY_interpolationLogLin x1 y1 x2 y2 =
     (let inv_a1 = (x2 - x1) / ln (y2 / y1);
          a1 = 1 / inv_a1;
          a1x1 = a1 * x1;
          a1x2 = a1 * x2
      in inv_a1 * inv_a1 * (exp a1x2 * (a1x2 - 1) - exp a1x1 * (a1x1 - 1)))"
| "weight_x_term _ x1 y1 x2 y2 = 0"

text \<open>The loop over the points that are left: a point beyond \<open>domainMax\<close> is replaced by
  the interpolated point at \<open>domainMax\<close>, and the loop ends after the segment that reaches
  \<open>domainMax\<close>. It returns the status and \<open>sum\<close> (\<open>acc\<close> in the model, here and in the
  other loops that add up a \<open>sum\<close>).\<close>

fun weight_x_loop ::
  "ptwXY_interpolation \<Rightarrow> real \<Rightarrow> real \<Rightarrow> real \<Rightarrow> real \<Rightarrow> ptwXYPoint list \<Rightarrow> nfu_status \<times> real" where
  "weight_x_loop interp domainMax x1 y1 acc [] = (nfu_Okay, acc)"
| "weight_x_loop interp domainMax x1 y1 acc (point # rest) =
     (case (if fst point > domainMax
            then (case ptwXY_interpolatePoint interp domainMax x1 y1 (fst point) (snd point) of
                    (st, y) \<Rightarrow> (st, domainMax, y))
            else (nfu_Okay, fst point, snd point)) of
        (st, x2, y2) \<Rightarrow>
          if st \<noteq> nfu_Okay then (st, acc)
          else (let acc2 = acc + weight_x_term interp x1 y1 x2 y2
                in if x2 = domainMax then (nfu_Okay, acc2)
                   else weight_x_loop interp domainMax x2 y2 acc2 rest))"

text \<open>The body after the points are coalesced. When \<open>domainMin\<close> lies inside a segment the
  left point becomes the interpolated point at \<open>domainMin\<close> and the index steps back, so
  that the loop starts at the point found by the scan.\<close>

definition weight_x_walk ::
  "ptwXY_interpolation \<Rightarrow> nat \<Rightarrow> ptwXYPoint list \<Rightarrow> real \<Rightarrow> real \<Rightarrow> real \<Rightarrow> nfu_status \<times> real" where
  "weight_x_walk interp n pts domainMin domainMax sign =
     (let i = integrate_scan domainMin (take n pts)
      in if i = n then (nfu_Okay, 0)
         else
           (let x2 = fst (pts ! i); y2 = snd (pts ! i)
            in if i > 0 \<and> x2 > domainMin then
                 (case ptwXY_interpolatePoint interp domainMin
                         (fst (pts ! (i - 1))) (snd (pts ! (i - 1))) x2 y2 of
                    (st, y) \<Rightarrow>
                      if st \<noteq> nfu_Okay then (st, 0)
                      else (case weight_x_loop interp domainMax domainMin y 0
                                   (drop i (take n pts)) of
                              (st2, acc) \<Rightarrow>
                                if st2 \<noteq> nfu_Okay then (st2, 0) else (nfu_Okay, sign * acc)))
               else (case weight_x_loop interp domainMax x2 y2 0 (drop (i + 1) (take n pts)) of
                       (st2, acc) \<Rightarrow>
                         if st2 \<noteq> nfu_Okay then (st2, 0) else (nfu_Okay, sign * acc))))"

definition ptwXY_integrateWithWeight_x ::
  "ptwXYPoints \<Rightarrow> real \<Rightarrow> real \<Rightarrow> nfu_status \<times> real \<times> ptwXYPoints" where
  "ptwXY_integrateWithWeight_x ptwXY domainMin domainMax =
     (let n = length (points ptwXY)
      in if status ptwXY \<noteq> nfu_Okay then (nfu_badSelf, 0, ptwXY)
         else if interpolation ptwXY \<noteq> ptwXY_interpolationLinLin \<and>
                 interpolation ptwXY \<noteq> ptwXY_interpolationLogLin \<and>
                 interpolation ptwXY \<noteq> ptwXY_interpolationFlat
         then (nfu_unsupportedInterpolation, 0, ptwXY)
         else if n < 2 then (nfu_Okay, 0, ptwXY)
         else
           (let swapped = (domainMax < domainMin);
                dMin = (if swapped then domainMax else domainMin);
                dMax = (if swapped then domainMin else domainMax);
                sign = (if swapped then - 1 else 1)
            in case ptwXY_simpleCoalescePoints ptwXY of
                 (st, p) \<Rightarrow>
                   if st \<noteq> nfu_Okay then (nfu_Error, 0, p)
                   else (case weight_x_walk (interpolation p) n (points p) dMin dMax sign of
                           (st2, v) \<Rightarrow> (st2, v, p))))"

text \<open>The same for the weight \<open>sqrt x\<close>. The C loop carries \<open>sqrt_x1\<close> and \<open>sqrt_x2\<close>, which
  are \<open>sqrt( x1 )\<close> and \<open>sqrt( x2 )\<close> in every pass.\<close>

fun weight_sqrt_x_term :: "ptwXY_interpolation \<Rightarrow> real \<Rightarrow> real \<Rightarrow> real \<Rightarrow> real \<Rightarrow> real" where
  "weight_sqrt_x_term ptwXY_interpolationFlat x1 y1 x2 y2 =
     (let sqrt_x1 = sqrt x1; sqrt_x2 = sqrt x2;
          c = 2 * (sqrt_x1 * sqrt_x2 + x1 + x2)
      in (sqrt_x2 - sqrt_x1) * y1 * 2.5 * c)"
| "weight_sqrt_x_term ptwXY_interpolationLinLin x1 y1 x2 y2 =
     (let sqrt_x1 = sqrt x1; sqrt_x2 = sqrt x2;
          inv_apb = sqrt_x1 + sqrt_x2;
          c = 2 * (sqrt_x1 * sqrt_x2 + x1 + x2)
      in (sqrt_x2 - sqrt_x1) *
           (y1 * (c + x1 * (1 + sqrt_x2 / inv_apb)) + y2 * (c + x2 * (1 + sqrt_x1 / inv_apb))))"
| "weight_sqrt_x_term _ x1 y1 x2 y2 = 0"

fun weight_sqrt_x_loop ::
  "ptwXY_interpolation \<Rightarrow> real \<Rightarrow> real \<Rightarrow> real \<Rightarrow> real \<Rightarrow> ptwXYPoint list \<Rightarrow> nfu_status \<times> real" where
  "weight_sqrt_x_loop interp domainMax x1 y1 acc [] = (nfu_Okay, acc)"
| "weight_sqrt_x_loop interp domainMax x1 y1 acc (point # rest) =
     (case (if fst point > domainMax
            then (case ptwXY_interpolatePoint interp domainMax x1 y1 (fst point) (snd point) of
                    (st, y) \<Rightarrow> (st, domainMax, y))
            else (nfu_Okay, fst point, snd point)) of
        (st, x2, y2) \<Rightarrow>
          if st \<noteq> nfu_Okay then (st, acc)
          else (let acc2 = acc + weight_sqrt_x_term interp x1 y1 x2 y2
                in if x2 = domainMax then (nfu_Okay, acc2)
                   else weight_sqrt_x_loop interp domainMax x2 y2 acc2 rest))"

definition weight_sqrt_x_walk ::
  "ptwXY_interpolation \<Rightarrow> nat \<Rightarrow> ptwXYPoint list \<Rightarrow> real \<Rightarrow> real \<Rightarrow> real \<Rightarrow> nfu_status \<times> real" where
  "weight_sqrt_x_walk interp n pts domainMin domainMax sign =
     (let i = integrate_scan domainMin (take n pts)
      in if i = n then (nfu_Okay, 0)
         else
           (let x2 = fst (pts ! i); y2 = snd (pts ! i)
            in if i > 0 \<and> x2 > domainMin then
                 (case ptwXY_interpolatePoint interp domainMin
                         (fst (pts ! (i - 1))) (snd (pts ! (i - 1))) x2 y2 of
                    (st, y) \<Rightarrow>
                      if st \<noteq> nfu_Okay then (st, 0)
                      else (case weight_sqrt_x_loop interp domainMax domainMin y 0
                                   (drop i (take n pts)) of
                              (st2, acc) \<Rightarrow>
                                if st2 \<noteq> nfu_Okay then (st2, 0)
                                else (nfu_Okay, 2 / 15 * sign * acc)))
               else (case weight_sqrt_x_loop interp domainMax x2 y2 0
                            (drop (i + 1) (take n pts)) of
                       (st2, acc) \<Rightarrow>
                         if st2 \<noteq> nfu_Okay then (st2, 0)
                         else (nfu_Okay, 2 / 15 * sign * acc))))"

definition ptwXY_integrateWithWeight_sqrt_x ::
  "ptwXYPoints \<Rightarrow> real \<Rightarrow> real \<Rightarrow> nfu_status \<times> real \<times> ptwXYPoints" where
  "ptwXY_integrateWithWeight_sqrt_x ptwXY domainMin domainMax =
     (let n = length (points ptwXY)
      in if status ptwXY \<noteq> nfu_Okay then (nfu_badSelf, 0, ptwXY)
         else if interpolation ptwXY \<noteq> ptwXY_interpolationLinLin \<and>
                 interpolation ptwXY \<noteq> ptwXY_interpolationFlat
         then (nfu_unsupportedInterpolation, 0, ptwXY)
         else if n < 2 then (nfu_Okay, 0, ptwXY)
         else
           (let swapped = (domainMax < domainMin);
                dMin = (if swapped then domainMax else domainMin);
                dMax = (if swapped then domainMin else domainMax);
                sign = (if swapped then - 1 else 1)
            in case ptwXY_simpleCoalescePoints ptwXY of
                 (st, p) \<Rightarrow>
                   if st \<noteq> nfu_Okay then (nfu_Error, 0, p)
                   else (case weight_sqrt_x_walk (interpolation p) n (points p) dMin dMax sign of
                           (st2, v) \<Rightarrow> (st2, v, p))))"

text \<open>The integrals with a weight over the whole domain of the function.\<close>

definition ptwXY_integrateDomainWithWeight_x ::
  "ptwXYPoints \<Rightarrow> nfu_status \<times> real \<times> ptwXYPoints" where
  "ptwXY_integrateDomainWithWeight_x ptwXY =
     (if status ptwXY \<noteq> nfu_Okay then (nfu_badSelf, 0, ptwXY)
      else if length (points ptwXY) < 2 then (nfu_Okay, 0, ptwXY)
      else ptwXY_integrateWithWeight_x ptwXY (ptwXY_domainMin ptwXY) (ptwXY_domainMax ptwXY))"

definition ptwXY_integrateDomainWithWeight_sqrt_x ::
  "ptwXYPoints \<Rightarrow> nfu_status \<times> real \<times> ptwXYPoints" where
  "ptwXY_integrateDomainWithWeight_sqrt_x ptwXY =
     (if status ptwXY \<noteq> nfu_Okay then (nfu_badSelf, 0, ptwXY)
      else if length (points ptwXY) < 2 then (nfu_Okay, 0, ptwXY)
      else ptwXY_integrateWithWeight_sqrt_x ptwXY (ptwXY_domainMin ptwXY)
             (ptwXY_domainMax ptwXY))"

subsection \<open>The running integral: \<open>ptwXY_runningIntegral\<close>\<close>

text \<open>
  Modelled from the spec: \<open>ptwX_new\<close> and \<open>ptwX_setPointAtIndex\<close> are not part of the
  integration module. The running integral is a sequence of numbers that is built entry
  by entry: a new sequence is empty, and setting the entry at the index that equals the
  current length appends it. Memory allocation is taken to succeed.
\<close>

definition ptwX_setPointAtIndex :: "real list \<Rightarrow> nat \<Rightarrow> real \<Rightarrow> nfu_status \<times> real list" where
  "ptwX_setPointAtIndex xs index x =
     (if index < length xs then (nfu_Okay, xs[index := x])
      else if index = length xs then (nfu_Okay, xs @ [x])
      else (nfu_Error, xs))"

text \<open>The loop \<open>for( i = 1; i < ptwXY->length; i++ )\<close>: \<open>(x1, y1)\<close> is \<open>points[i-1]\<close> and the
  list holds the points from index \<open>i\<close> on. \<open>None\<close> is the \<open>NULL\<close> that the routine returns
  on every failure.\<close>

fun runningIntegral_loop ::
  "ptwXY_interpolation \<Rightarrow> nat \<Rightarrow> real \<Rightarrow> real \<Rightarrow> real \<Rightarrow> ptwXYPoint list \<Rightarrow> real list
     \<Rightarrow> real list option" where
  "runningIntegral_loop interp i x1 y1 integral [] runningIntegral = Some runningIntegral"
| "runningIntegral_loop interp i x1 y1 integral (point # rest) runningIntegral =
     (case ptwXY_f_integrate interp x1 y1 (fst point) (snd point) of
        (st, dSum) \<Rightarrow>
          if st \<noteq> nfu_Okay then None
          else (case ptwX_setPointAtIndex runningIntegral i (integral + dSum) of
                  (st2, r) \<Rightarrow>
                    if st2 \<noteq> nfu_Okay then None
                    else runningIntegral_loop interp (Suc i) (fst point) (snd point)
                           (integral + dSum) rest r))"

definition ptwXY_runningIntegral :: "ptwXYPoints \<Rightarrow> real list option \<times> ptwXYPoints" where
  "ptwXY_runningIntegral ptwXY =
     (case ptwXY_simpleCoalescePoints ptwXY of
        (st, p) \<Rightarrow>
          if st \<noteq> nfu_Okay then (None, p)
          else (case ptwX_setPointAtIndex [] 0 0 of
                  (st2, r) \<Rightarrow>
                    if st2 \<noteq> nfu_Okay then (None, p)
                    else (case points p of
                            [] \<Rightarrow> (Some r, p)
                          | point # rest \<Rightarrow>
                              (runningIntegral_loop (interpolation p) 1 (fst point) (snd point)
                                 0 rest r, p))))"

subsection \<open>Quadrature with an external integrand: \<open>ptwXY_integrateWithFunction\<close>\<close>

text \<open>The struct \<open>ptwXY_integrateWithFunctionInfo\<close>. The callback \<open>func\<close> and its argument
  list are one function from \<open>x\<close> to a status and a value.\<close>

record ptwXY_integrateWithFunctionInfo =
  info_degree :: int
  info_func :: "real \<Rightarrow> nfu_status \<times> real"
  info_interpolation :: ptwXY_interpolation
  info_x1 :: real
  info_x2 :: real
  info_y1 :: real
  info_y2 :: real

text \<open>The adaptive quadrature primitive \<open>nf_GnG_adaptiveQuadrature\<close> is not part of the
  module: the routine takes it as a parameter. It receives the degree (which
  \<open>ptwXY_integrateWithFunction2\<close> hands to the Gauss-Legendre rule), the integrand, the
  bounds, the recursion limit and the tolerance, and returns a status and the integral.\<close>

type_synonym adaptiveQuadrature =
  "int \<Rightarrow> (real \<Rightarrow> nfu_status \<times> real) \<Rightarrow> real \<Rightarrow> real \<Rightarrow> int \<Rightarrow> real \<Rightarrow> nfu_status \<times> real"

definition ptwXY_integrateWithFunction3 ::
  "ptwXY_integrateWithFunctionInfo \<Rightarrow> real \<Rightarrow> nfu_status \<times> real" where
  "ptwXY_integrateWithFunction3 info x =
     (case ptwXY_interpolatePoint (info_interpolation info) x
             (info_x1 info) (info_y1 info) (info_x2 info) (info_y2 info) of
        (st, yf) \<Rightarrow>
          if st = nfu_Okay then (case info_func info x of (st2, y) \<Rightarrow> (st2, y * yf))
          else (st, 0))"

text \<open>The scan \<open>for( i1 = 0; i1 < ( n1 - 1 ); i1++ ) if( points[i1+1].x > domainMin ) break\<close>,
  over the points from index \<open>1\<close> on.\<close>

fun integrateWithFunction_i1 :: "real \<Rightarrow> ptwXYPoint list \<Rightarrow> nat" where
  "integrateWithFunction_i1 domainMin [] = 0"
| "integrateWithFunction_i1 domainMin (point # rest) =
     (if fst point > domainMin then 0 else Suc (integrateWithFunction_i1 domainMin rest))"

text \<open>The scan \<open>for( i2 = n1 - 1; i2 > i1; i2-- ) if( points[i2-1].x < domainMax ) break\<close>,
  by recursion on \<open>i2\<close>.\<close>

fun integrateWithFunction_i2 :: "ptwXYPoint list \<Rightarrow> real \<Rightarrow> nat \<Rightarrow> nat \<Rightarrow> nat" where
  "integrateWithFunction_i2 pts domainMax i1 0 = 0"
| "integrateWithFunction_i2 pts domainMax i1 (Suc k) =
     (if Suc k > i1
      then (if fst (pts ! k) < domainMax then Suc k
            else integrateWithFunction_i2 pts domainMax i1 k)
      else Suc k)"

text \<open>The loop \<open>for( ; i1 < i2; i1++ )\<close> over the segments, given the points from index
  \<open>i1 + 1\<close> to \<open>i2\<close>. It returns the status and \<open>integral\<close>.\<close>

fun integrateWithFunction_loop ::
  "adaptiveQuadrature \<Rightarrow> ptwXY_integrateWithFunctionInfo \<Rightarrow> real \<Rightarrow> int \<Rightarrow> real \<Rightarrow> real \<Rightarrow> real
     \<Rightarrow> ptwXYPoint list \<Rightarrow> nfu_status \<times> real" where
  "integrateWithFunction_loop quad info domainMax recursionLimit tolerance xa integral [] =
     (nfu_Okay, integral)"
| "integrateWithFunction_loop quad info domainMax recursionLimit tolerance xa integral
     (point # rest) =
     (let info2 = info\<lparr>info_x1 := info_x2 info, info_y1 := info_y2 info,
                        info_x2 := fst point, info_y2 := snd point\<rparr>;
          xb = (if fst point > domainMax then domainMax else fst point)
      in case quad (info_degree info2) (ptwXY_integrateWithFunction3 info2) xa xb
                recursionLimit tolerance of
           (st, integral_) \<Rightarrow>
             if st \<noteq> nfu_Okay then (st, integral)
             else integrateWithFunction_loop quad info2 domainMax recursionLimit tolerance xb
                    (integral + integral_) rest)"

text \<open>\<open>value0\<close> is what \<open>*value\<close> holds when the routine is called: the routine assigns
  \<open>*value\<close> in its last statement only. The statement \<open>return( 0. )\<close> returns the status
  with the number \<open>0\<close>, which is \<open>nfu_Okay\<close>. The fields \<open>x1\<close> and \<open>y1\<close> of the info struct
  are not set before the loop, which assigns them before any use.\<close>

definition ptwXY_integrateWithFunction ::
  "adaptiveQuadrature \<Rightarrow> ptwXYPoints \<Rightarrow> (real \<Rightarrow> nfu_status \<times> real) \<Rightarrow> real \<Rightarrow> real \<Rightarrow> int \<Rightarrow> int
     \<Rightarrow> real \<Rightarrow> real \<Rightarrow> nfu_status \<times> real \<times> ptwXYPoints" where
  "ptwXY_integrateWithFunction quad ptwXY func domainMin domainMax degree recursionLimit
     tolerance value0 =
     (let n1 = length (points ptwXY)
      in case ptwXY_simpleCoalescePoints ptwXY of
           (st, p) \<Rightarrow>
             if st \<noteq> nfu_Okay then (nfu_Error, value0, p)
             else if domainMin = domainMax then (nfu_Okay, value0, p)
             else if n1 < 2 then (nfu_Okay, value0, p)
             else
               (let swapped = (domainMin > domainMax);
                    dMin = (if swapped then domainMax else domainMin);
                    dMax = (if swapped then domainMin else domainMax);
                    pts = points p
                in if dMin \<ge> fst (pts ! (n1 - 1)) then (nfu_Okay, value0, p)
                   else if dMax \<le> fst (pts ! 0) then (nfu_Okay, value0, p)
                   else
                     (let i1 = integrateWithFunction_i1 dMin (tl (take n1 pts));
                          i2 = integrateWithFunction_i2 pts dMax i1 (n1 - 1);
                          info = \<lparr>info_degree = degree, info_func = func,
                                  info_interpolation = interpolation p,
                                  info_x1 = fst (pts ! i1), info_x2 = fst (pts ! i1),
                                  info_y1 = snd (pts ! i1), info_y2 = snd (pts ! i1)\<rparr>
                      in case integrateWithFunction_loop quad info dMax recursionLimit
                                tolerance dMin 0 (take (i2 - i1) (drop (i1 + 1) pts)) of
                           (st2, integral) \<Rightarrow>
                             if st2 \<noteq> nfu_Okay then (st2, value0, p)
                             else (nfu_Okay, integral, p))))"

subsection \<open>Group integration: \<open>ptwXY_groupOneFunction\<close>, \<open>Two\<close> and \<open>Three\<close>\<close>

text \<open>\<open>ptwXPoints\<close>: a status and a sequence of numbers (group boundaries, norms).\<close>

record ptwXPoints =
  X_status :: nfu_status
  X_points :: "real list"

datatype ptwXY_group_normType =
    ptwXY_group_normType_none
  | ptwXY_group_normType_dx
  | ptwXY_group_normType_norm

text \<open>The routines that build the intermediate functions are not part of the module and
  are parameters of the model: \<open>ptwXY_intersectionWith_ptwX\<close> and \<open>ptwXY_union\<close> (with the
  fill option) return a new function or \<open>NULL\<close>, and \<open>ptwXY_tweakDomainsToMutualify\<close>
  returns a status and the two functions, which it adjusts in place.\<close>

record collaborators =
  ptwXY_intersectionWith_ptwX :: "ptwXYPoints \<Rightarrow> ptwXPoints \<Rightarrow> ptwXYPoints option"
  ptwXY_tweakDomainsToMutualify ::
    "ptwXYPoints \<Rightarrow> ptwXYPoints \<Rightarrow> int \<Rightarrow> real \<Rightarrow> nfu_status \<times> ptwXYPoints \<times> ptwXYPoints"
  ptwXY_union :: "ptwXYPoints \<Rightarrow> ptwXYPoints \<Rightarrow> ptwXYPoints option"

text \<open>What a group routine returns: the grouped data, or \<open>NULL\<close> with the status code that
  the routine reports first. \<open>OutOfBounds\<close> stands for a read of \<open>points[i]\<close> beyond the
  length of a function, which the C code does not check (the merged functions have the
  same length when \<open>ptwXY_union\<close> keeps its contract), or of \<open>points[0]\<close> of a sequence
  without points.\<close>

datatype grouped = Grouped "real list" | Failed nfu_status | OutOfBounds

text \<open>The checks of the norm argument, which is a pointer and may be \<open>NULL\<close>; \<open>ngs\<close> is
  the number of groups, \<open>ptwX_length( groupBoundaries ) - 1\<close>.\<close>

definition group_check_norm ::
  "ptwXY_group_normType \<Rightarrow> ptwXPoints option \<Rightarrow> int \<Rightarrow> nfu_status" where
  "group_check_norm normType ptwX_norm ngs =
     (if normType = ptwXY_group_normType_norm
      then (case ptwX_norm of
              None \<Rightarrow> nfu_badNorm
            | Some nrm \<Rightarrow>
                if X_status nrm \<noteq> nfu_Okay then nfu_badSelf
                else if int (length (X_points nrm)) \<noteq> ngs then nfu_badNorm
                else nfu_Okay)
      else nfu_Okay)"

definition norm_points :: "ptwXPoints option \<Rightarrow> real list" where
  "norm_points ptwX_norm = (case ptwX_norm of None \<Rightarrow> [] | Some nrm \<Rightarrow> X_points nrm)"

text \<open>The normalisation of the sum of one group (the block \<open>if( sum != 0. ) { ... }\<close>, the
  same in the three routines): the new \<open>sum\<close>, or the failure.\<close>

definition group_normalize ::
  "ptwXY_group_normType \<Rightarrow> real list \<Rightarrow> nat \<Rightarrow> real \<Rightarrow> real \<Rightarrow> real \<Rightarrow> nfu_status + real" where
  "group_normalize normType nrm igs xg1 xg2 acc =
     (if acc \<noteq> 0 then
        (if normType = ptwXY_group_normType_dx then Inr (acc / (xg2 - xg1))
         else if normType = ptwXY_group_normType_norm then
           (if nrm ! igs = 0 then Inl nfu_divByZero else Inr (acc / nrm ! igs))
         else Inr acc)
      else Inr acc)"

text \<open>The loop over the groups \<open>for( igs = 0, i = 1; igs < ngs; igs++ )\<close>, which is the
  same in the three routines but for the inner loop and the final factor (\<open>0.5 * sum\<close>,
  \<open>sum / 6.\<close>, \<open>sum / 12.\<close>). The state \<open>st\<close> holds what the inner loop keeps between the
  groups: the index \<open>i\<close> (as the points from \<open>i\<close> on), \<open>x1\<close> and the \<open>y1\<close> values. The list
  holds the upper boundaries \<open>groupBoundaries->points[igs+1]\<close> that are left.\<close>

fun group_loop ::
  "(real \<Rightarrow> 's \<Rightarrow> ('s \<times> real) option) \<Rightarrow> ('s \<Rightarrow> real) \<Rightarrow> (real \<Rightarrow> real) \<Rightarrow> ptwXY_group_normType
     \<Rightarrow> real list \<Rightarrow> nat \<Rightarrow> real \<Rightarrow> 's \<Rightarrow> real list \<Rightarrow> grouped" where
  "group_loop inner x1_of final normType nrm igs xg1 st [] = Grouped []"
| "group_loop inner x1_of final normType nrm igs xg1 st (xg2 # uppers) =
     (case (if xg2 > x1_of st then inner xg2 st else Some (st, 0)) of
        None \<Rightarrow> OutOfBounds
      | Some (st2, acc) \<Rightarrow>
          (case group_normalize normType nrm igs xg1 xg2 acc of
             Inl e \<Rightarrow> Failed e
           | Inr acc2 \<Rightarrow>
               (case group_loop inner x1_of final normType nrm (Suc igs) xg2 st2 uppers of
                  Grouped vs \<Rightarrow> Grouped (final acc2 # vs)
                | other \<Rightarrow> other)))"

text \<open>When an intersection has no points the routines return \<open>ptwX_createLine\<close> with the
  slope and the offset \<open>0\<close>, a sequence of \<open>ngs\<close> zeros. \<open>ptwX_new\<close> and \<open>ptwX_createLine\<close>
  are taken to succeed.\<close>

text \<open>The inner loop of \<open>ptwXY_groupOneFunction\<close>,
  \<open>for( ; i < f->length; i++, x1 = x2, y1 = y2 )\<close>; the state is \<open>(x1, y1, points from i on)\<close>.\<close>

fun groupOne_inner ::
  "bool \<Rightarrow> real \<Rightarrow> real \<Rightarrow> real \<Rightarrow> real \<Rightarrow> ptwXYPoint list
     \<Rightarrow> ((real \<times> real \<times> ptwXYPoint list) \<times> real) option" where
  "groupOne_inner flat xg2 x1 y1 acc [] = Some ((x1, y1, []), acc)"
| "groupOne_inner flat xg2 x1 y1 acc (point # rest) =
     (let x2 = fst point
      in if x2 > xg2 then Some ((x1, y1, point # rest), acc)
         else (let y2 = snd point;
                   y2p = (if flat then y1 else y2)
               in groupOne_inner flat xg2 x2 y2 (acc + (y1 + y2p) * (x2 - x1)) rest))"

definition groupOne_walk ::
  "ptwXYPoints \<Rightarrow> ptwXY_group_normType \<Rightarrow> real list \<Rightarrow> real list \<Rightarrow> grouped" where
  "groupOne_walk f normType nrm boundaries =
     (case boundaries of
        [] \<Rightarrow> OutOfBounds
      | xg1 # uppers \<Rightarrow>
          (case points f of
             [] \<Rightarrow> OutOfBounds
           | point # rest \<Rightarrow>
               group_loop
                 (\<lambda>xg2 (x1, y1, r).
                    groupOne_inner (interpolation f = ptwXY_interpolationFlat) xg2 x1 y1 0 r)
                 (\<lambda>(x1, y1, r). x1) (\<lambda>acc. 0.5 * acc) normType nrm 0 xg1
                 (fst point, snd point, rest) uppers))"

definition ptwXY_groupOneFunction ::
  "collaborators \<Rightarrow> ptwXYPoints \<Rightarrow> ptwXPoints \<Rightarrow> ptwXY_group_normType \<Rightarrow> ptwXPoints option
     \<Rightarrow> grouped \<times> ptwXYPoints" where
  "ptwXY_groupOneFunction c ptwXY groupBoundaries normType ptwX_norm =
     (case ptwXY_simpleCoalescePoints ptwXY of
        (st, p) \<Rightarrow>
          if st \<noteq> nfu_Okay then (Failed nfu_Error, p)
          else if X_status groupBoundaries \<noteq> nfu_Okay then (Failed nfu_badSelf, p)
          else if interpolation p = ptwXY_interpolationOther
          then (Failed nfu_otherInterpolation, p)
          else
            (let ngs = int (length (X_points groupBoundaries)) - 1
             in if group_check_norm normType ptwX_norm ngs \<noteq> nfu_Okay
                then (Failed (group_check_norm normType ptwX_norm ngs), p)
                else (case ptwXY_intersectionWith_ptwX c p groupBoundaries of
                        None \<Rightarrow> (Failed nfu_Error, p)
                      | Some f \<Rightarrow>
                          if length (points f) = 0 then (Grouped (replicate (nat ngs) 0), p)
                          else (groupOne_walk f normType (norm_points ptwX_norm)
                                  (X_points groupBoundaries), p))))"

text \<open>The inner loop of \<open>ptwXY_groupTwoFunctions\<close>. The points of \<open>g\<close> are read at the
  index of \<open>f\<close>: both lists hold the points from \<open>i\<close> on.\<close>

fun groupTwo_inner ::
  "bool \<Rightarrow> bool \<Rightarrow> real \<Rightarrow> real \<Rightarrow> real \<Rightarrow> real \<Rightarrow> real \<Rightarrow> ptwXYPoint list \<Rightarrow> ptwXYPoint list
     \<Rightarrow> ((real \<times> real \<times> real \<times> ptwXYPoint list \<times> ptwXYPoint list) \<times> real) option" where
  "groupTwo_inner fflat gflat xg2 x1 fy1 gy1 acc [] grest =
     Some ((x1, fy1, gy1, [], grest), acc)"
| "groupTwo_inner fflat gflat xg2 x1 fy1 gy1 acc (fpoint # frest) grest =
     (let x2 = fst fpoint
      in if x2 > xg2 then Some ((x1, fy1, gy1, fpoint # frest, grest), acc)
         else (case grest of
                 [] \<Rightarrow> None
               | gpoint # grest2 \<Rightarrow>
                   (let fy2 = snd fpoint;
                        fy2p = (if fflat then fy1 else fy2);
                        gy2 = snd gpoint;
                        gy2p = (if gflat then gy1 else gy2)
                    in groupTwo_inner fflat gflat xg2 x2 fy2 gy2
                         (acc + ((fy1 + fy2p) * (gy1 + gy2p) + fy1 * gy1 + fy2p * gy2p) * (x2 - x1))
                         frest grest2)))"

definition groupTwo_walk ::
  "ptwXYPoints \<Rightarrow> ptwXYPoints \<Rightarrow> ptwXY_group_normType \<Rightarrow> real list \<Rightarrow> real list \<Rightarrow> grouped" where
  "groupTwo_walk f g normType nrm boundaries =
     (case boundaries of
        [] \<Rightarrow> OutOfBounds
      | xg1 # uppers \<Rightarrow>
          (case points f of
             [] \<Rightarrow> OutOfBounds
           | fpoint # frest \<Rightarrow>
               (case points g of
                  [] \<Rightarrow> OutOfBounds
                | gpoint # grest \<Rightarrow>
                    group_loop
                      (\<lambda>xg2 (x1, fy1, gy1, fr, gr).
                         groupTwo_inner (interpolation f = ptwXY_interpolationFlat)
                           (interpolation g = ptwXY_interpolationFlat) xg2 x1 fy1 gy1 0 fr gr)
                      (\<lambda>(x1, fy1, gy1, fr, gr). x1) (\<lambda>acc. acc / 6) normType nrm 0 xg1
                      (fst fpoint, snd fpoint, snd gpoint, frest, grest) uppers)))"

definition ptwXY_groupTwoFunctions ::
  "collaborators \<Rightarrow> ptwXYPoints \<Rightarrow> ptwXYPoints \<Rightarrow> ptwXPoints \<Rightarrow> ptwXY_group_normType
     \<Rightarrow> ptwXPoints option \<Rightarrow> grouped \<times> ptwXYPoints \<times> ptwXYPoints" where
  "ptwXY_groupTwoFunctions c ptwXY1 ptwXY2 groupBoundaries normType ptwX_norm =
     (case ptwXY_simpleCoalescePoints ptwXY1 of
        (st1, p1) \<Rightarrow>
          if st1 \<noteq> nfu_Okay then (Failed nfu_Error, p1, ptwXY2)
          else
            (case ptwXY_simpleCoalescePoints ptwXY2 of
               (st2, p2) \<Rightarrow>
                 if st2 \<noteq> nfu_Okay then (Failed nfu_Error, p1, p2)
                 else if X_status groupBoundaries \<noteq> nfu_Okay then (Failed nfu_badSelf, p1, p2)
                 else if interpolation p1 = ptwXY_interpolationOther
                 then (Failed nfu_otherInterpolation, p1, p2)
                 else if interpolation p2 = ptwXY_interpolationOther
                 then (Failed nfu_otherInterpolation, p1, p2)
                 else
                   (let ngs = int (length (X_points groupBoundaries)) - 1
                    in if group_check_norm normType ptwX_norm ngs \<noteq> nfu_Okay
                       then (Failed (group_check_norm normType ptwX_norm ngs), p1, p2)
                       else
                         (case ptwXY_intersectionWith_ptwX c p1 groupBoundaries of
                            None \<Rightarrow> (Failed nfu_Error, p1, p2)
                          | Some ff \<Rightarrow>
                         (case ptwXY_intersectionWith_ptwX c p2 groupBoundaries of
                            None \<Rightarrow> (Failed nfu_Error, p1, p2)
                          | Some gg \<Rightarrow>
                              if length (points ff) = 0 \<or> length (points gg) = 0
                              then (Grouped (replicate (nat ngs) 0), p1, p2)
                              else
                         (case ptwXY_tweakDomainsToMutualify c ff gg 4 0 of
                            (st3, ff2, gg2) \<Rightarrow>
                              if st3 \<noteq> nfu_Okay then (Failed nfu_Error, p1, p2)
                              else
                         (case ptwXY_union c ff2 gg2 of
                            None \<Rightarrow> (Failed nfu_Error, p1, p2)
                          | Some f \<Rightarrow>
                         (case ptwXY_union c gg2 f of
                            None \<Rightarrow> (Failed nfu_Error, p1, p2)
                          | Some g \<Rightarrow>
                              (groupTwo_walk f g normType (norm_points ptwX_norm)
                                 (X_points groupBoundaries), p1, p2)))))))))"

text \<open>The inner loop of \<open>ptwXY_groupThreeFunctions\<close>.\<close>

fun groupThree_inner ::
  "bool \<Rightarrow> bool \<Rightarrow> bool \<Rightarrow> real \<Rightarrow> real \<Rightarrow> real \<Rightarrow> real \<Rightarrow> real \<Rightarrow> real
     \<Rightarrow> ptwXYPoint list \<Rightarrow> ptwXYPoint list \<Rightarrow> ptwXYPoint list
     \<Rightarrow> ((real \<times> real \<times> real \<times> real \<times> ptwXYPoint list \<times> ptwXYPoint list \<times> ptwXYPoint list)
          \<times> real) option" where
  "groupThree_inner fflat gflat hflat xg2 x1 fy1 gy1 hy1 acc [] grest hrest =
     Some ((x1, fy1, gy1, hy1, [], grest, hrest), acc)"
| "groupThree_inner fflat gflat hflat xg2 x1 fy1 gy1 hy1 acc (fpoint # frest) grest hrest =
     (let x2 = fst fpoint
      in if x2 > xg2 then Some ((x1, fy1, gy1, hy1, fpoint # frest, grest, hrest), acc)
         else (case grest of
                 [] \<Rightarrow> None
               | gpoint # grest2 \<Rightarrow>
                   (case hrest of
                      [] \<Rightarrow> None
                    | hpoint # hrest2 \<Rightarrow>
                        (let fy2 = snd fpoint;
                             fy2p = (if fflat then fy1 else fy2);
                             gy2 = snd gpoint;
                             gy2p = (if gflat then gy1 else gy2);
                             hy2 = snd hpoint;
                             hy2p = (if hflat then hy1 else hy2)
                         in groupThree_inner fflat gflat hflat xg2 x2 fy2 gy2 hy2
                              (acc + ((fy1 + fy2p) * (gy1 + gy2p) * (hy1 + hy2p)
                                      + 2 * fy1 * gy1 * hy1 + 2 * fy2p * gy2p * hy2p) * (x2 - x1))
                              frest grest2 hrest2))))"

definition groupThree_walk ::
  "ptwXYPoints \<Rightarrow> ptwXYPoints \<Rightarrow> ptwXYPoints \<Rightarrow> ptwXY_group_normType \<Rightarrow> real list \<Rightarrow> real list
     \<Rightarrow> grouped" where
  "groupThree_walk f g h normType nrm boundaries =
     (case boundaries of
        [] \<Rightarrow> OutOfBounds
      | xg1 # uppers \<Rightarrow>
          (case points f of
             [] \<Rightarrow> OutOfBounds
           | fpoint # frest \<Rightarrow>
               (case points g of
                  [] \<Rightarrow> OutOfBounds
                | gpoint # grest \<Rightarrow>
                    (case points h of
                       [] \<Rightarrow> OutOfBounds
                     | hpoint # hrest \<Rightarrow>
                         group_loop
                           (\<lambda>xg2 (x1, fy1, gy1, hy1, fr, gr, hr).
                              groupThree_inner (interpolation f = ptwXY_interpolationFlat)
                                (interpolation g = ptwXY_interpolationFlat)
                                (interpolation h = ptwXY_interpolationFlat)
                                xg2 x1 fy1 gy1 hy1 0 fr gr hr)
                           (\<lambda>(x1, fy1, gy1, hy1, fr, gr, hr). x1) (\<lambda>acc. acc / 12)
                           normType nrm 0 xg1
                           (fst fpoint, snd fpoint, snd gpoint, snd hpoint, frest, grest, hrest)
                           uppers))))"

text \<open>The intermediate functions of \<open>ptwXY_groupThreeFunctions\<close>, from the three
  intersections on: the three calls that make the domains mutual and the four unions.
  \<open>None\<close> is the jump to \<open>Err\<close>.\<close>

definition groupThree_merge ::
  "collaborators \<Rightarrow> ptwXYPoints \<Rightarrow> ptwXYPoints \<Rightarrow> ptwXYPoints
     \<Rightarrow> (ptwXYPoints \<times> ptwXYPoints \<times> ptwXYPoints) option" where
  "groupThree_merge c ff gg hh =
     (case ptwXY_tweakDomainsToMutualify c ff gg 4 0 of
        (st1, ff2, gg2) \<Rightarrow>
          if st1 \<noteq> nfu_Okay then None
          else
     (case ptwXY_tweakDomainsToMutualify c ff2 hh 4 0 of
        (st2, ff3, hh2) \<Rightarrow>
          if st2 \<noteq> nfu_Okay then None
          else
     (case ptwXY_tweakDomainsToMutualify c gg2 hh2 4 0 of
        (st3, gg3, hh3) \<Rightarrow>
          if st3 \<noteq> nfu_Okay then None
          else
     (case ptwXY_union c ff3 gg3 of
        None \<Rightarrow> None
      | Some fff \<Rightarrow>
     (case ptwXY_union c hh3 fff of
        None \<Rightarrow> None
      | Some h \<Rightarrow>
     (case ptwXY_union c fff h of
        None \<Rightarrow> None
      | Some f \<Rightarrow>
     (case ptwXY_union c gg3 h of
        None \<Rightarrow> None
      | Some g \<Rightarrow> Some (f, g, h))))))))"

definition ptwXY_groupThreeFunctions ::
  "collaborators \<Rightarrow> ptwXYPoints \<Rightarrow> ptwXYPoints \<Rightarrow> ptwXYPoints \<Rightarrow> ptwXPoints
     \<Rightarrow> ptwXY_group_normType \<Rightarrow> ptwXPoints option
     \<Rightarrow> grouped \<times> ptwXYPoints \<times> ptwXYPoints \<times> ptwXYPoints" where
  "ptwXY_groupThreeFunctions c ptwXY1 ptwXY2 ptwXY3 groupBoundaries normType ptwX_norm =
     (case ptwXY_simpleCoalescePoints ptwXY1 of
        (st1, p1) \<Rightarrow>
          if st1 \<noteq> nfu_Okay then (Failed nfu_Error, p1, ptwXY2, ptwXY3)
          else
     (case ptwXY_simpleCoalescePoints ptwXY2 of
        (st2, p2) \<Rightarrow>
          if st2 \<noteq> nfu_Okay then (Failed nfu_Error, p1, p2, ptwXY3)
          else
     (case ptwXY_simpleCoalescePoints ptwXY3 of
        (st3, p3) \<Rightarrow>
          if st3 \<noteq> nfu_Okay then (Failed nfu_Error, p1, p2, p3)
          else if X_status groupBoundaries \<noteq> nfu_Okay then (Failed nfu_badSelf, p1, p2, p3)
          else if interpolation p1 = ptwXY_interpolationOther
          then (Failed nfu_otherInterpolation, p1, p2, p3)
          else if interpolation p2 = ptwXY_interpolationOther
          then (Failed nfu_otherInterpolation, p1, p2, p3)
          else if interpolation p3 = ptwXY_interpolationOther
          then (Failed nfu_otherInterpolation, p1, p2, p3)
          else
            (let ngs = int (length (X_points groupBoundaries)) - 1
             in if group_check_norm normType ptwX_norm ngs \<noteq> nfu_Okay
                then (Failed (group_check_norm normType ptwX_norm ngs), p1, p2, p3)
                else
                  (case ptwXY_intersectionWith_ptwX c p1 groupBoundaries of
                     None \<Rightarrow> (Failed nfu_Error, p1, p2, p3)
                   | Some ff \<Rightarrow>
                  (case ptwXY_intersectionWith_ptwX c p2 groupBoundaries of
                     None \<Rightarrow> (Failed nfu_Error, p1, p2, p3)
                   | Some gg \<Rightarrow>
                  (case ptwXY_intersectionWith_ptwX c p3 groupBoundaries of
                     None \<Rightarrow> (Failed nfu_Error, p1, p2, p3)
                   | Some hh \<Rightarrow>
                       if length (points ff) = 0 \<or> length (points gg) = 0
                            \<or> length (points hh) = 0
                       then (Grouped (replicate (nat ngs) 0), p1, p2, p3)
                       else
                         (case groupThree_merge c ff gg hh of
                            None \<Rightarrow> (Failed nfu_Error, p1, p2, p3)
                          | Some (f, g, h) \<Rightarrow>
                              (groupThree_walk f g h normType (norm_points ptwX_norm)
                                 (X_points groupBoundaries), p1, p2, p3)))))))))"

subsection \<open>Example data\<close>

text \<open>A function with the law \<open>logLog\<close> that carries a prior error status.\<close>

definition XY_badSelf :: ptwXYPoints where
  "XY_badSelf = \<lparr>status = nfu_badSelf, interpolation = ptwXY_interpolationLogLog,
                  points = [(1, 1), (2, 2)]\<rparr>"






text \<open>A \<open>linLin\<close> function whose integral over its domain is zero.\<close>

definition XY_zero :: ptwXYPoints where
  "XY_zero = \<lparr>status = nfu_Okay, interpolation = ptwXY_interpolationLinLin,
               points = [(0, - 1), (2, 1)]\<rparr>"

text \<open>The status codes that the point evaluator and \<open>ptwXY_f_integrate\<close> return.\<close>

definition evaluator_status :: "nfu_status \<Rightarrow> bool" where
  "evaluator_status st =
     (st = nfu_Okay \<or> st = nfu_badIntegrationInput \<or> st = nfu_otherInterpolation)"

section \<open>Properties\<close>

subsection \<open>Status codes and the function object\<close>

lemma evaluator_status_Okay: "evaluator_status nfu_Okay"
  by (simp add: evaluator_status_def)

lemma f_integrate_status:
  "evaluator_status (fst (ptwXY_f_integrate interp x1 y1 x2 y2))"
  by (cases interp) (simp_all add: Let_def evaluator_status_def)

lemma interpolatePoint_status:
  "evaluator_status (fst (ptwXY_interpolatePoint interp x x1 y1 x2 y2))"
  by (cases interp) (simp_all add: evaluator_status_def)

lemma integrate_loop_status:
  "evaluator_status (fst (integrate_loop interp domainMax x1 y1 val rest))"
proof (induction rest arbitrary: x1 y1 val)
  case Nil
  show ?case by (simp add: evaluator_status_Okay)
next
  case (Cons point rest)
  show ?case
    by (simp add: case_prod_beta evaluator_status_Okay Cons.IH f_integrate_status
        interpolatePoint_status)
qed

lemma integrate_rest_status:
  "evaluator_status (fst (integrate_rest interp domainMax sign x2 y2 val rest))"
  by (simp add: integrate_rest_def case_prod_beta evaluator_status_Okay integrate_loop_status)

lemma integrate_walk_status:
  "evaluator_status (fst (integrate_walk interp n pts domainMin domainMax sign))"
  by (simp add: integrate_walk_def Let_def case_prod_beta evaluator_status_Okay
      integrate_rest_status f_integrate_status interpolatePoint_status)

lemma ptwXY_integrate_status:
  "fst (ptwXY_integrate p a b) = nfu_badSelf \<or> evaluator_status (fst (ptwXY_integrate p a b))"
  by (simp add: ptwXY_integrate_def Let_def case_prod_beta ptwXY_simpleCoalescePoints_def
      evaluator_status_Okay integrate_walk_status)
    (simp add: evaluator_status_def)

lemma ptwXY_integrate_frame: "snd (snd (ptwXY_integrate p a b)) = p"
  by (simp add: ptwXY_integrate_def Let_def case_prod_beta ptwXY_simpleCoalescePoints_def)

lemma ptwXY_integrateDomain_frame: "snd (snd (ptwXY_integrateDomain p)) = p"
  by (simp add: ptwXY_integrateDomain_def ptwXY_integrate_frame)

lemma ptwXY_integrateDomain_status: "fst (ptwXY_integrateDomain p) \<noteq> nfu_badNorm"
  using ptwXY_integrate_status[of p "ptwXY_domainMin p" "ptwXY_domainMax p"]
  by (auto simp: ptwXY_integrateDomain_def evaluator_status_def)

lemmas integrate_XY_defs =
  ptwXY_integrate_def XY_def ptwXY_simpleCoalescePoints_def integrate_walk_def
  integrate_rest_def

subsection \<open>The integral over a range\<close>

text \<open>
  Claim C1. For the function \<open>XY\<close> (law \<open>linLin\<close>, points \<open>(2,2), (4,4), (6,2), (8,6)\<close>,
  status \<open>Okay\<close>) \<open>ptwXY_integrate\<close> returns the status \<open>Okay\<close> and the value \<open>20\<close> for the
  bounds \<open>(2,8)\<close>, \<open>17.5\<close> for \<open>(3,8)\<close>, \<open>15\<close> for \<open>(2,7)\<close>, \<open>9.5\<close> for \<open>(2,5)\<close>, \<open>2.5\<close> for
  \<open>(2,3)\<close> and \<open>12.5\<close> for \<open>(3,7)\<close>.
\<close>

theorem ptwXY_integrate_XY_values:
  "ptwXY_integrate XY 2 8 = (nfu_Okay, 20, XY) \<and>
   ptwXY_integrate XY 3 8 = (nfu_Okay, 17.5, XY) \<and>
   ptwXY_integrate XY 2 7 = (nfu_Okay, 15, XY) \<and>
   ptwXY_integrate XY 2 5 = (nfu_Okay, 9.5, XY) \<and>
   ptwXY_integrate XY 2 3 = (nfu_Okay, 2.5, XY) \<and>
   ptwXY_integrate XY 3 7 = (nfu_Okay, 12.5, XY)"
proof -
  have "ptwXY_integrate XY 2 8 = (nfu_Okay, 20, XY)"
    by (simp add: integrate_XY_defs)
  moreover have "ptwXY_integrate XY 3 8 = (nfu_Okay, 17.5, XY)"
    by (simp add: integrate_XY_defs)
  moreover have "ptwXY_integrate XY 2 7 = (nfu_Okay, 15, XY)"
    by (simp add: integrate_XY_defs)
  moreover have "ptwXY_integrate XY 2 5 = (nfu_Okay, 9.5, XY)"
    by (simp add: integrate_XY_defs)
  moreover have "ptwXY_integrate XY 2 3 = (nfu_Okay, 2.5, XY)"
    by (simp add: integrate_XY_defs)
  moreover have "ptwXY_integrate XY 3 7 = (nfu_Okay, 12.5, XY)"
    by (simp add: integrate_XY_defs)
  ultimately show ?thesis by simp
qed

text \<open>
  Claim C2 says that \<open>ptwXY_integrate\<close> with the bounds exchanged returns the negated
  value. When both bounds lie inside one segment the routine returns from its first
  \<open>if( x2 > domainMax )\<close> block, before the statement \<open>*value *= _sign\<close>: for \<open>XY\<close> and the
  bounds \<open>2.5\<close> and \<open>3.5\<close> the value is \<open>3\<close> in either order.
\<close>

theorem ptwXY_integrate_XY_same_segment:
  "ptwXY_integrate XY 2.5 3.5 = (nfu_Okay, 3, XY) \<and>
   ptwXY_integrate XY 3.5 2.5 = (nfu_Okay, 3, XY)"
proof -
  have "ptwXY_integrate XY 2.5 3.5 = (nfu_Okay, 3, XY)"
    by (simp add: integrate_XY_defs)
  moreover have "ptwXY_integrate XY 3.5 2.5 = (nfu_Okay, 3, XY)"
    by (simp add: integrate_XY_defs)
  ultimately show ?thesis by simp
qed

subsection \<open>Normalisation\<close>

text \<open>
  Claim C3. \<open>ptwXY_normalize\<close> fails with \<open>BadNorm\<close> exactly when the integral over the
  domain of the function (\<open>ptwXY_integrateDomain\<close>, which succeeds) is exactly zero, and
  then the function is as it was; when it succeeds, the \<open>y\<close> of each point is divided by
  that integral and every \<open>x\<close> is as it was.
\<close>

theorem ptwXY_normalize_badNorm:
  "(fst (ptwXY_normalize p) = nfu_badNorm \<longleftrightarrow>
      fst (ptwXY_integrateDomain p) = nfu_Okay \<and> fst (snd (ptwXY_integrateDomain p)) = 0)
   \<and> (fst (ptwXY_normalize p) = nfu_badNorm \<longrightarrow> snd (ptwXY_normalize p) = p)
   \<and> (fst (ptwXY_normalize p) = nfu_Okay \<longrightarrow>
        points (snd (ptwXY_normalize p)) =
          map (\<lambda>point. (fst point, snd point / fst (snd (ptwXY_integrateDomain p))))
            (points p))"
  using ptwXY_integrateDomain_status[of p] ptwXY_integrateDomain_frame[of p]
  by (auto simp: ptwXY_normalize_def case_prod_beta)

theorem ptwXY_normalize_badNorm_witness:
  "fst (ptwXY_normalize XY) = nfu_Okay \<and>
   points (snd (ptwXY_normalize XY)) = [(2, 1 / 10), (4, 1 / 5), (6, 1 / 10), (8, 3 / 10)] \<and>
   fst (ptwXY_integrateDomain XY_zero) = nfu_Okay \<and>
   fst (snd (ptwXY_integrateDomain XY_zero)) = 0 \<and>
   fst (ptwXY_normalize XY_zero) = nfu_badNorm \<and>
   snd (ptwXY_normalize XY_zero) = XY_zero"
proof -
  have d: "ptwXY_integrateDomain XY = (nfu_Okay, 20, XY)"
    by (simp add: ptwXY_integrateDomain_def ptwXY_domainMin_def ptwXY_domainMax_def
        integrate_XY_defs)
  have ok: "fst (ptwXY_normalize XY) = nfu_Okay"
    by (simp add: ptwXY_normalize_def d)
  have pts: "points (snd (ptwXY_normalize XY)) =
      map (\<lambda>point. (fst point, snd point / fst (snd (ptwXY_integrateDomain XY)))) (points XY)"
    using ptwXY_normalize_badNorm[of XY] ok by simp
  have z: "ptwXY_integrateDomain XY_zero = (nfu_Okay, 0, XY_zero)"
    by (simp add: ptwXY_integrateDomain_def ptwXY_domainMin_def ptwXY_domainMax_def
        ptwXY_integrate_def XY_zero_def ptwXY_simpleCoalescePoints_def integrate_walk_def
        integrate_rest_def)
  have bad: "fst (ptwXY_normalize XY_zero) = nfu_badNorm"
    using ptwXY_normalize_badNorm[of XY_zero] z by simp
  have same: "snd (ptwXY_normalize XY_zero) = XY_zero"
    using ptwXY_normalize_badNorm[of XY_zero] bad by simp
  show ?thesis
    using ok pts bad same by (simp add: d z) (simp add: XY_def)
qed

subsection \<open>The integral of one segment\<close>

text \<open>
  Claim C4. \<open>ptwXY_f_integrate\<close> fails with \<open>BadIntegrationInput\<close> if and only if the law is
  \<open>logLin\<close> and \<open>y1 <= 0\<close> or \<open>y2 <= 0\<close>, or the law is \<open>linLog\<close> and \<open>x1 <= 0\<close> or
  \<open>x2 <= 0\<close>, or the law is \<open>logLog\<close> and one of \<open>x1\<close>, \<open>y1\<close>, \<open>x2\<close>, \<open>y2\<close> is \<open><= 0\<close>; it
  fails with \<open>OtherInterpolationUnsupported\<close> exactly when the law is \<open>other\<close>; for
  \<open>linLin\<close> and \<open>flat\<close> it always succeeds.
\<close>

theorem ptwXY_f_integrate_failures:
  "(fst (ptwXY_f_integrate interp x1 y1 x2 y2) = nfu_badIntegrationInput \<longleftrightarrow>
      (interp = ptwXY_interpolationLogLin \<and> (y1 \<le> 0 \<or> y2 \<le> 0)) \<or>
      (interp = ptwXY_interpolationLinLog \<and> (x1 \<le> 0 \<or> x2 \<le> 0)) \<or>
      (interp = ptwXY_interpolationLogLog \<and> (x1 \<le> 0 \<or> y1 \<le> 0 \<or> x2 \<le> 0 \<or> y2 \<le> 0)))
   \<and> (fst (ptwXY_f_integrate interp x1 y1 x2 y2) = nfu_otherInterpolation \<longleftrightarrow>
        interp = ptwXY_interpolationOther)
   \<and> fst (ptwXY_f_integrate ptwXY_interpolationLinLin x1 y1 x2 y2) = nfu_Okay
   \<and> fst (ptwXY_f_integrate ptwXY_interpolationFlat x1 y1 x2 y2) = nfu_Okay"
  by (cases interp) (auto simp: Let_def)

subsection \<open>The running integral\<close>

text \<open>
  Claim C6 says that the running integral of \<open>XY\<close> has the four values \<open>[0, 6, 12, 17]\<close>.
  The last value that the routine computes is \<open>20\<close>, not \<open>17\<close>.
\<close>

theorem ptwXY_runningIntegral_XY_not_17:
  "fst (ptwXY_runningIntegral XY) \<noteq> Some [0, 6, 12, 17]"
  by (simp add: ptwXY_runningIntegral_def XY_def ptwXY_simpleCoalescePoints_def
      ptwX_setPointAtIndex_def)

text \<open>
  Claim C6, amended. For the \<open>linLin\<close> function \<open>XY\<close> with the points
  \<open>(2,2), (4,4), (6,2), (8,6)\<close>, \<open>ptwXY_runningIntegral\<close> returns a sequence of length \<open>4\<close>
  whose values at the knot points are \<open>[0, 6, 12, 20]\<close>.
\<close>

theorem ptwXY_runningIntegral_XY:
  "fst (ptwXY_runningIntegral XY) = Some [0, 6, 12, 20] \<and>
   length (the (fst (ptwXY_runningIntegral XY))) = 4"
  by (simp add: ptwXY_runningIntegral_def XY_def ptwXY_simpleCoalescePoints_def
      ptwX_setPointAtIndex_def)

subsection \<open>Quadrature with an external integrand\<close>

text \<open>
  Claim C5 says that \<open>ptwXY_integrateWithFunction\<close> stores \<open>0\<close> in its output value when
  the bounds are equal, the function has fewer than two points or the range lies outside
  the domain. In these cases the routine returns \<open>nfu_Okay\<close> and leaves \<open>*value\<close> as it
  was: with \<open>7\<close> in \<open>*value\<close> on entry, the output is \<open>7\<close>.
\<close>

theorem ptwXY_integrateWithFunction_keeps_value:
  "ptwXY_integrateWithFunction quad XY func 3 3 degree recursionLimit tolerance 7
     = (nfu_Okay, 7, XY) \<and>
   ptwXY_integrateWithFunction quad XY func 9 10 degree recursionLimit tolerance 7
     = (nfu_Okay, 7, XY) \<and>
   ptwXY_integrateWithFunction quad XY func 0 1 degree recursionLimit tolerance 7
     = (nfu_Okay, 7, XY) \<and>
   ptwXY_integrateWithFunction quad (XY\<lparr>points := [(2, 2)]\<rparr>) func 0 3 degree recursionLimit
       tolerance 7
     = (nfu_Okay, 7, XY\<lparr>points := [(2, 2)]\<rparr>)"
  by (simp add: ptwXY_integrateWithFunction_def XY_def ptwXY_simpleCoalescePoints_def)

subsection \<open>Weighted integrals\<close>

lemma weight_x_loop_status:
  "evaluator_status (fst (weight_x_loop interp domainMax x1 y1 acc rest))"
proof (induction rest arbitrary: x1 y1 acc)
  case Nil
  show ?case by (simp add: evaluator_status_Okay)
next
  case (Cons point rest)
  show ?case
    by (simp add: case_prod_beta Let_def evaluator_status_Okay Cons.IH interpolatePoint_status)
qed

lemma weight_sqrt_x_loop_status:
  "evaluator_status (fst (weight_sqrt_x_loop interp domainMax x1 y1 acc rest))"
proof (induction rest arbitrary: x1 y1 acc)
  case Nil
  show ?case by (simp add: evaluator_status_Okay)
next
  case (Cons point rest)
  show ?case
    by (simp add: case_prod_beta Let_def evaluator_status_Okay Cons.IH interpolatePoint_status)
qed

lemma weight_x_walk_status:
  "evaluator_status (fst (weight_x_walk interp n pts domainMin domainMax sign))"
  by (simp add: weight_x_walk_def Let_def case_prod_beta evaluator_status_Okay
      weight_x_loop_status interpolatePoint_status)

lemma weight_sqrt_x_walk_status:
  "evaluator_status (fst (weight_sqrt_x_walk interp n pts domainMin domainMax sign))"
  by (simp add: weight_sqrt_x_walk_def Let_def case_prod_beta evaluator_status_Okay
      weight_sqrt_x_loop_status interpolatePoint_status)

lemma evaluator_status_unsupported:
  "evaluator_status st \<Longrightarrow> st \<noteq> nfu_unsupportedInterpolation"
  by (auto simp: evaluator_status_def)

text \<open>
  Claim C7 says that, for every input function, the weighted integrators fail with
  \<open>UnsupportedInterpolation\<close> exactly when the law is not a supported one. The status of
  the function is tested first: the function \<open>XY_badSelf\<close>, with the law \<open>logLog\<close> and a
  prior error status, fails with \<open>BadSelf\<close> in both routines.
\<close>

theorem weight_badSelf_logLog:
  "interpolation XY_badSelf = ptwXY_interpolationLogLog \<and>
   fst (ptwXY_integrateWithWeight_x XY_badSelf 1 2) = nfu_badSelf \<and>
   fst (ptwXY_integrateWithWeight_sqrt_x XY_badSelf 1 2) = nfu_badSelf"
  by (simp add: ptwXY_integrateWithWeight_x_def ptwXY_integrateWithWeight_sqrt_x_def
      XY_badSelf_def)

text \<open>
  Claim C7, amended. For every input function with the status \<open>Okay\<close>,
  \<open>ptwXY_integrateWithWeight_x\<close> fails with \<open>UnsupportedInterpolation\<close> exactly when the law
  is not one of \<open>linLin\<close>, \<open>logLin\<close>, \<open>flat\<close>, and \<open>ptwXY_integrateWithWeight_sqrt_x\<close> exactly
  when the law is not one of \<open>linLin\<close>, \<open>flat\<close>; in particular both reject \<open>logLog\<close> and
  \<open>linLog\<close> for such a function. A function with a prior error status fails with \<open>BadSelf\<close>
  in both routines, whatever its law.
\<close>

theorem weight_unsupportedInterpolation:
  "(fst (ptwXY_integrateWithWeight_x p a b) = nfu_unsupportedInterpolation \<longleftrightarrow>
      status p = nfu_Okay \<and> interpolation p \<noteq> ptwXY_interpolationLinLin \<and>
      interpolation p \<noteq> ptwXY_interpolationLogLin \<and>
      interpolation p \<noteq> ptwXY_interpolationFlat)
   \<and> (fst (ptwXY_integrateWithWeight_sqrt_x p a b) = nfu_unsupportedInterpolation \<longleftrightarrow>
      status p = nfu_Okay \<and> interpolation p \<noteq> ptwXY_interpolationLinLin \<and>
      interpolation p \<noteq> ptwXY_interpolationFlat)
   \<and> (status p \<noteq> nfu_Okay \<longrightarrow>
        fst (ptwXY_integrateWithWeight_x p a b) = nfu_badSelf \<and>
        fst (ptwXY_integrateWithWeight_sqrt_x p a b) = nfu_badSelf)"
proof -
  have x: "fst (weight_x_walk interp n pts dMin dMax sign) \<noteq> nfu_unsupportedInterpolation"
    for interp n pts dMin dMax sign
    by (rule evaluator_status_unsupported) (rule weight_x_walk_status)
  have s: "fst (weight_sqrt_x_walk interp n pts dMin dMax sign) \<noteq> nfu_unsupportedInterpolation"
    for interp n pts dMin dMax sign
    by (rule evaluator_status_unsupported) (rule weight_sqrt_x_walk_status)
  have "fst (ptwXY_integrateWithWeight_x p a b) = nfu_unsupportedInterpolation \<longleftrightarrow>
      status p = nfu_Okay \<and> interpolation p \<noteq> ptwXY_interpolationLinLin \<and>
      interpolation p \<noteq> ptwXY_interpolationLogLin \<and>
      interpolation p \<noteq> ptwXY_interpolationFlat"
    by (simp add: ptwXY_integrateWithWeight_x_def Let_def case_prod_beta
        ptwXY_simpleCoalescePoints_def x)
  moreover have
    "fst (ptwXY_integrateWithWeight_sqrt_x p a b) = nfu_unsupportedInterpolation \<longleftrightarrow>
      status p = nfu_Okay \<and> interpolation p \<noteq> ptwXY_interpolationLinLin \<and>
      interpolation p \<noteq> ptwXY_interpolationFlat"
    by (simp add: ptwXY_integrateWithWeight_sqrt_x_def Let_def case_prod_beta
        ptwXY_simpleCoalescePoints_def s)
  moreover have "status p \<noteq> nfu_Okay \<longrightarrow>
        fst (ptwXY_integrateWithWeight_x p a b) = nfu_badSelf \<and>
        fst (ptwXY_integrateWithWeight_sqrt_x p a b) = nfu_badSelf"
    by (simp add: ptwXY_integrateWithWeight_x_def ptwXY_integrateWithWeight_sqrt_x_def Let_def)
  ultimately show ?thesis by simp
qed

theorem weight_unsupportedInterpolation_witness:
  "status (XY\<lparr>status := nfu_Error\<rparr>) \<noteq> nfu_Okay \<and>
   fst (ptwXY_integrateWithWeight_x (XY\<lparr>status := nfu_Error\<rparr>) 2 8) = nfu_badSelf \<and>
   fst (ptwXY_integrateWithWeight_sqrt_x (XY\<lparr>status := nfu_Error\<rparr>) 2 8) = nfu_badSelf \<and>
   fst (ptwXY_integrateWithWeight_x (XY\<lparr>interpolation := ptwXY_interpolationLogLog\<rparr>) 2 8)
     = nfu_unsupportedInterpolation \<and>
   fst (ptwXY_integrateWithWeight_sqrt_x (XY\<lparr>interpolation := ptwXY_interpolationLinLog\<rparr>) 2 8)
     = nfu_unsupportedInterpolation"
proof -
  have e: "status (XY\<lparr>status := nfu_Error\<rparr>) \<noteq> nfu_Okay" by simp
  note t = weight_unsupportedInterpolation[of "XY\<lparr>status := nfu_Error\<rparr>" 2 8]
  have b: "fst (ptwXY_integrateWithWeight_x (XY\<lparr>status := nfu_Error\<rparr>) 2 8) = nfu_badSelf \<and>
   fst (ptwXY_integrateWithWeight_sqrt_x (XY\<lparr>status := nfu_Error\<rparr>) 2 8) = nfu_badSelf"
    using t[THEN conjunct2, THEN conjunct2, rule_format, OF e] .
  have u1: "fst (ptwXY_integrateWithWeight_x (XY\<lparr>interpolation := ptwXY_interpolationLogLog\<rparr>) 2 8)
     = nfu_unsupportedInterpolation"
    using weight_unsupportedInterpolation[of "XY\<lparr>interpolation := ptwXY_interpolationLogLog\<rparr>" 2 8,
        THEN conjunct1]
    by (simp add: XY_def)
  have u2: "fst (ptwXY_integrateWithWeight_sqrt_x (XY\<lparr>interpolation := ptwXY_interpolationLinLog\<rparr>) 2 8)
     = nfu_unsupportedInterpolation"
    using weight_unsupportedInterpolation[of "XY\<lparr>interpolation := ptwXY_interpolationLinLog\<rparr>" 2 8,
        THEN conjunct2, THEN conjunct1]
    by (simp add: XY_def)
  from e b u1 u2 show ?thesis by simp
qed

subsection \<open>The routines other than \<open>ptwXY_normalize\<close> keep the points\<close>

lemma coalesce_frame: "snd (ptwXY_simpleCoalescePoints p) = p"
  by (simp add: ptwXY_simpleCoalescePoints_def)

lemma weight_x_frame: "snd (snd (ptwXY_integrateWithWeight_x p a b)) = p"
  by (simp add: ptwXY_integrateWithWeight_x_def Let_def case_prod_beta coalesce_frame)

lemma weight_sqrt_x_frame: "snd (snd (ptwXY_integrateWithWeight_sqrt_x p a b)) = p"
  by (simp add: ptwXY_integrateWithWeight_sqrt_x_def Let_def case_prod_beta coalesce_frame)

lemma domain_weight_x_frame: "snd (snd (ptwXY_integrateDomainWithWeight_x p)) = p"
  by (simp add: ptwXY_integrateDomainWithWeight_x_def weight_x_frame)

lemma domain_weight_sqrt_x_frame: "snd (snd (ptwXY_integrateDomainWithWeight_sqrt_x p)) = p"
  by (simp add: ptwXY_integrateDomainWithWeight_sqrt_x_def weight_sqrt_x_frame)

lemma runningIntegral_frame: "snd (ptwXY_runningIntegral p) = p"
  by (simp add: ptwXY_runningIntegral_def case_prod_beta coalesce_frame split: list.splits)

lemma integrateWithFunction_frame:
  "snd (snd (ptwXY_integrateWithFunction quad p func a b degree recursionLimit tolerance
               value0)) = p"
  by (simp add: ptwXY_integrateWithFunction_def Let_def case_prod_beta coalesce_frame)

lemma groupOne_frame: "snd (ptwXY_groupOneFunction c p gb normType ptwX_norm) = p"
  by (simp add: ptwXY_groupOneFunction_def Let_def case_prod_beta coalesce_frame
      split: option.splits)

lemma groupTwo_frame:
  "snd (ptwXY_groupTwoFunctions c p1 p2 gb normType ptwX_norm) = (p1, p2)"
  by (simp add: ptwXY_groupTwoFunctions_def Let_def case_prod_beta coalesce_frame
      split: option.splits)

lemma groupThree_frame:
  "snd (ptwXY_groupThreeFunctions c p1 p2 p3 gb normType ptwX_norm) = (p1, p2, p3)"
  by (simp add: ptwXY_groupThreeFunctions_def Let_def case_prod_beta coalesce_frame
      split: option.splits)

text \<open>
  Claim C9. Every integration routine other than \<open>ptwXY_normalize\<close> leaves the point
  sequence of its input function (every \<open>x\<close> and every \<open>y\<close>) as it was when it returns,
  for every input function: \<open>ptwXY_integrate\<close> and \<open>ptwXY_integrateDomain\<close>, the weighted
  integrators, the running integral, the integral with an external integrand, and the
  group integrators (for each of their input functions).
\<close>

theorem integration_keeps_points:
  "points (snd (snd (ptwXY_integrate p a b))) = points p \<and>
   points (snd (snd (ptwXY_integrateDomain p))) = points p \<and>
   points (snd (snd (ptwXY_integrateWithWeight_x p a b))) = points p \<and>
   points (snd (snd (ptwXY_integrateWithWeight_sqrt_x p a b))) = points p \<and>
   points (snd (snd (ptwXY_integrateDomainWithWeight_x p))) = points p \<and>
   points (snd (snd (ptwXY_integrateDomainWithWeight_sqrt_x p))) = points p \<and>
   points (snd (ptwXY_runningIntegral p)) = points p \<and>
   points (snd (snd (ptwXY_integrateWithFunction quad p func a b degree recursionLimit
                       tolerance value0))) = points p \<and>
   points (snd (ptwXY_groupOneFunction c p gb normType ptwX_norm)) = points p \<and>
   map points [fst (snd (ptwXY_groupTwoFunctions c p p2 gb normType ptwX_norm)),
               snd (snd (ptwXY_groupTwoFunctions c p p2 gb normType ptwX_norm))]
     = [points p, points p2] \<and>
   map points [fst (snd (ptwXY_groupThreeFunctions c p p2 p3 gb normType ptwX_norm)),
               fst (snd (snd (ptwXY_groupThreeFunctions c p p2 p3 gb normType ptwX_norm))),
               snd (snd (snd (ptwXY_groupThreeFunctions c p p2 p3 gb normType ptwX_norm)))]
     = [points p, points p2, points p3]"
  by (simp add: ptwXY_integrate_frame ptwXY_integrateDomain_frame weight_x_frame
      weight_sqrt_x_frame domain_weight_x_frame domain_weight_sqrt_x_frame
      runningIntegral_frame integrateWithFunction_frame groupOne_frame groupTwo_frame
      groupThree_frame)

subsection \<open>Group integration with norms\<close>
















end
